theory Spec2Isabelle
  imports Main "HOL-Library.Word"
begin

section \<open>Secure TCP server: data model\<close>

text \<open>
  A shallow embedding of \<^verbatim>\<open>proj_cm33_ns/source/secure_tcp_server.c\<close>. The global variables
  of the file are the fields of one record, every function of the file is a function on
  that record, and every call into a library (Ethernet connection manager, secure sockets,
  FreeRTOS) takes the library's answer as an argument and is logged in a trace, so that
  the order of the calls and their absence can be stated.
\<close>

text \<open>
  \<^verbatim>\<open>cy_rslt_t\<close>: the file compares results with two constants only,
  \<^verbatim>\<open>CY_RSLT_SUCCESS\<close> and \<^verbatim>\<open>CY_RSLT_MODULE_SECURE_SOCKETS_CLOSED\<close>; every other code is
  carried by \<open>CY_RSLT_OTHER\<close>.
\<close>

datatype cy_rslt =
    CY_RSLT_SUCCESS
  | CY_RSLT_MODULE_SECURE_SOCKETS_CLOSED
  | CY_RSLT_OTHER "32 word"

text \<open>
  The two values of the mirrored LED state, \<^verbatim>\<open>CYBSP_LED_STATE_ON\<close> and
  \<^verbatim>\<open>CYBSP_LED_STATE_OFF\<close>. Their numeric values belong to the board support package; the
  file only stores and compares them.
\<close>

datatype led = CYBSP_LED_STATE_ON | CYBSP_LED_STATE_OFF

datatype ip_version = IP_VER_UNSET | CY_SOCKET_IP_VER_V4 | CY_SOCKET_IP_VER_V6

text \<open>
  \<^verbatim>\<open>cy_socket_sockaddr_t\<close>. The address \<^verbatim>\<open>ip_address.ip\<close> is a C union of
  \<^verbatim>\<open>uint32_t v4\<close> and \<^verbatim>\<open>uint32_t v6[4]\<close>: \<open>ip\<close> holds the four words of \<^verbatim>\<open>v6\<close>, and
  \<^verbatim>\<open>v4\<close> is the first of them.
\<close>

record sockaddr =
  port :: "16 word"
  version :: ip_version
  ip :: "32 word list"

text \<open>
  The macros the file takes from headers that are not part of the sources
  (\<^verbatim>\<open>secure_tcp_server.h\<close>, \<^verbatim>\<open>FreeRTOSConfig.h\<close>): they are parameters of the model.
\<close>

record build_config =
  USE_IPV6_ADDRESS :: bool
  TCP_SERVER_PORT :: "16 word"
  MAX_TCP_RECV_BUFFER_SIZE :: nat
  portTICK_PERIOD_MS :: "32 word"

datatype sockopt =
    CY_SOCKET_SO_RCVTIMEO
  | CY_SOCKET_SO_CONNECT_REQUEST_CALLBACK
  | CY_SOCKET_SO_RECEIVE_CALLBACK
  | CY_SOCKET_SO_DISCONNECT_CALLBACK
  | CY_SOCKET_SO_TLS_IDENTITY
  | CY_SOCKET_SO_TLS_AUTH_MODE

text \<open>The library calls the file makes, as they appear in the trace.\<close>

datatype call =
    Cy_SysInt_Init
  | Cy_ecm_init
  | Cy_ecm_ethif_init
  | Cy_ecm_connect
  | Cy_ecm_get_ipv6_address
  | Cy_socket_init
  | Cy_tls_create_identity
  | Cy_tls_load_global_root_ca_certificates
  | Cy_socket_create
  | Cy_socket_setsockopt sockopt
  | Cy_socket_bind sockaddr
  | Cy_socket_listen nat
  | Cy_socket_accept nat
  | Cy_socket_recv nat
  | Cy_socket_send nat "8 word"
  | Cy_socket_disconnect nat
  | Cy_socket_delete nat
  | XTaskNotifyFromISR "32 word"
  | Handle_app_error

text \<open>
  The notification slot of the server task, owned by FreeRTOS: the notified value and
  whether a notification is pending.
\<close>

record notif =
  notification_pending :: bool
  ulNotifiedValue :: "32 word"

text \<open>
  The global variables of the file (\<^verbatim>\<open>peer_addr\<close>, \<^verbatim>\<open>peer_addr_len\<close>, \<^verbatim>\<open>tls_identity\<close> and
  \<^verbatim>\<open>ecm_handle\<close> are written by the libraries only and read by none of the branches, so
  they are left out), followed by the state of the environment: the notification slot
  of the server task, the client sockets the transport has handed out by a successful
  accept and that were not deleted since, and the trace of library calls.
\<close>

record world =
  tcp_server_addr :: sockaddr
  server_handle :: nat
  client_handle :: nat
  led_state :: led
  client_connected :: bool
  button_debouncing :: bool
  button_debounce_timestamp :: "32 word"
  notification :: notif
  open_clients :: "nat list"
  trace :: "call list"

text \<open>
  The state at reset: globals without an initialiser are zero, \<^verbatim>\<open>led_state\<close> is
  \<^verbatim>\<open>CYBSP_LED_STATE_OFF\<close>, \<^verbatim>\<open>button_debouncing\<close> is false and the timestamp is 0.
\<close>

definition initial_world :: world where
  "initial_world =
     \<lparr> tcp_server_addr = \<lparr> port = 0, version = IP_VER_UNSET, ip = [0, 0, 0, 0] \<rparr>,
       server_handle = 0,
       client_handle = 0,
       led_state = CYBSP_LED_STATE_OFF,
       client_connected = False,
       button_debouncing = False,
       button_debounce_timestamp = 0,
       notification = \<lparr> notification_pending = False, ulNotifiedValue = 0 \<rparr>,
       open_clients = [],
       trace = [] \<rparr>"

definition LED_ON_CMD :: "32 word" where
  "LED_ON_CMD = 49"

definition LED_OFF_CMD :: "32 word" where
  "LED_OFF_CMD = 48"

definition DEBOUNCE_TIME_MS :: "32 word" where
  "DEBOUNCE_TIME_MS = 100"

definition MAX_ETH_RETRY_COUNT :: "8 word" where
  "MAX_ETH_RETRY_COUNT = 3"

definition NULL_CHARACTER :: char where
  "NULL_CHARACTER = CHR 0x00"

definition log_call :: "call \<Rightarrow> world \<Rightarrow> world" where
  "log_call c w = w\<lparr>trace := trace w @ [c]\<rparr>"

text \<open>
  How a function of the file ends: it returns a value, or it stops. It stops where
  \<^verbatim>\<open>handle_app_error\<close> is called, where C leaves the behaviour undefined (a write past
  the end of an array, a string without terminator), and where the task blocks.
\<close>

datatype stop =
    Halted world
  | Out_of_bounds_write nat
  | Unterminated_string
  | Task_blocked
  | Not_delivered

section \<open>Cross-context signal channel\<close>

text \<open>
  Modelled from the spec: the FreeRTOS kernel (\<^verbatim>\<open>xTaskNotifyFromISR\<close>, \<^verbatim>\<open>xTaskNotifyWait\<close>)
  is not part of the sources. The file always notifies with the action
  \<^verbatim>\<open>eSetValueWithoutOverwrite\<close>, which the spec describes as "notify without overwrite
  unless already pending": "a signal is dropped only if one is already pending and
  unconsumed, never queued". The first component is \<^verbatim>\<open>pdPASS\<close> (True) or \<^verbatim>\<open>pdFAIL\<close>.
\<close>

definition xTaskNotifyFromISR :: "32 word \<Rightarrow> notif \<Rightarrow> bool \<times> notif" where
  "xTaskNotifyFromISR ulValue n =
     (if notification_pending n then (False, n)
      else (True, n\<lparr>notification_pending := True, ulNotifiedValue := ulValue\<rparr>))"

text \<open>
  Modelled from the spec: \<^verbatim>\<open>xTaskNotifyWait\<close> with no bits cleared on entry or exit and
  \<^verbatim>\<open>portMAX_DELAY\<close>: it "blocks the calling task indefinitely, no timeout, until a signal
  arrives; consuming a signal clears pending state". \<open>None\<close> is the blocked task.
\<close>

definition xTaskNotifyWait :: "notif \<Rightarrow> (32 word \<times> notif) option" where
  "xTaskNotifyWait n =
     (if notification_pending n
      then Some (ulNotifiedValue n, n\<lparr>notification_pending := False\<rparr>)
      else None)"

section \<open>Debounced event source: the button interrupt handler\<close>

text \<open>
  \<^verbatim>\<open>user_button_interrupt_handler\<close>. \<open>btn1_status\<close> is what \<^verbatim>\<open>Cy_GPIO_GetInterruptStatus\<close>
  returns for button 1; \<open>tick1\<close> and \<open>tick2\<close> are the two readings of
  \<^verbatim>\<open>xTaskGetTickCount\<close> (the comparison and the recording). All arithmetic is on
  \<^verbatim>\<open>uint32_t\<close>. Clearing the interrupt flags changes no variable of the file.
\<close>

definition user_button_interrupt_handler ::
    "build_config \<Rightarrow> bool \<Rightarrow> 32 word \<Rightarrow> 32 word \<Rightarrow> world \<Rightarrow> world" where
  "user_button_interrupt_handler cfg btn1_status tick1 tick2 w =
     (if btn1_status then
        (let w1 =
               (if \<not> button_debouncing w then
                  (if tick1 * portTICK_PERIOD_MS cfg - button_debounce_timestamp w
                        \<ge> DEBOUNCE_TIME_MS * portTICK_PERIOD_MS cfg
                   then w\<lparr>button_debouncing := True,
                          button_debounce_timestamp := tick2 * portTICK_PERIOD_MS cfg\<rparr>
                   else w)
                else w)
         in
           (if button_debouncing w1 then
              (let led_state_cmd =
                     (if led_state w1 = CYBSP_LED_STATE_ON then LED_OFF_CMD else LED_ON_CMD);
                   w2 = w1\<lparr>button_debouncing := False\<rparr>;
                   w3 = log_call (XTaskNotifyFromISR led_state_cmd) w2
               in w3\<lparr>notification := snd (xTaskNotifyFromISR led_state_cmd (notification w3))\<rparr>)
            else w1))
      else w)"

text \<open>The library calls one invocation of the handler adds to the trace.\<close>

definition isr_calls :: "build_config \<Rightarrow> bool \<Rightarrow> 32 word \<Rightarrow> 32 word \<Rightarrow> world \<Rightarrow> call list" where
  "isr_calls cfg btn1_status tick1 tick2 w =
     drop (length (trace w)) (trace (user_button_interrupt_handler cfg btn1_status tick1 tick2 w))"

section \<open>Connection state machine: the three socket callbacks\<close>

text \<open>
  \<^verbatim>\<open>tcp_connection_handler\<close>. \<open>result\<close> is what \<^verbatim>\<open>cy_socket_accept\<close> returns and
  \<open>new_handle\<close> what it leaves in \<^verbatim>\<open>client_handle\<close>, to which it is given a pointer; when
  it succeeds this is the socket of the new client.
\<close>

definition tcp_connection_handler :: "nat \<Rightarrow> cy_rslt \<Rightarrow> nat \<Rightarrow> world \<Rightarrow> cy_rslt \<times> world" where
  "tcp_connection_handler socket_handle result new_handle w =
     (let w1 = (log_call (Cy_socket_accept socket_handle) w)\<lparr>client_handle := new_handle\<rparr> in
      if result = CY_RSLT_SUCCESS
      then (result, w1\<lparr>open_clients := new_handle # open_clients w1,
                       client_connected := True\<rparr>)
      else (result, w1))"

text \<open>\<^verbatim>\<open>cy_socket_disconnect\<close> followed by \<^verbatim>\<open>cy_socket_delete\<close> on one handle.\<close>

definition disconnect_and_delete :: "nat \<Rightarrow> world \<Rightarrow> world" where
  "disconnect_and_delete h w =
     (let w1 = log_call (Cy_socket_disconnect h) w;
          w2 = log_call (Cy_socket_delete h) w1
      in w2\<lparr>open_clients := removeAll h (open_clients w2)\<rparr>)"

text \<open>
  \<^verbatim>\<open>strcmp\<close> on two character arrays: the comparison stops at the first difference or at
  the terminator; reading past the end of an array is \<open>None\<close>.
\<close>

fun strcmp :: "string \<Rightarrow> string \<Rightarrow> int option" where
  "strcmp (a # as) (b # bs) =
     (if a = b then (if a = NULL_CHARACTER then Some 0 else strcmp as bs)
      else Some (of_char a - of_char b))"
| "strcmp _ _ = None"

text \<open>
  \<^verbatim>\<open>tcp_receive_msg_handler\<close>. \<open>stack\<close> is the content of the uninitialised array
  \<^verbatim>\<open>message_buffer\<close> at entry (\<^verbatim>\<open>MAX_TCP_RECV_BUFFER_SIZE\<close> characters); \<open>result\<close> and
  \<open>payload\<close> are what \<^verbatim>\<open>cy_socket_recv\<close> returns and stores at the start of the buffer,
  \<^verbatim>\<open>bytes_received\<close> being the length of \<open>payload\<close> (at most the buffer size, which is
  passed to \<^verbatim>\<open>cy_socket_recv\<close>).
\<close>

definition tcp_receive_msg_handler ::
    "build_config \<Rightarrow> nat \<Rightarrow> cy_rslt \<Rightarrow> string \<Rightarrow> string \<Rightarrow> world \<Rightarrow> stop + cy_rslt \<times> world" where
  "tcp_receive_msg_handler cfg socket_handle result payload stack w =
     (let w1 = log_call (Cy_socket_recv socket_handle) w;
          bytes_received = length payload;
          message_buffer = payload @ drop bytes_received stack
      in
        if result = CY_RSLT_SUCCESS then
          (if bytes_received < MAX_TCP_RECV_BUFFER_SIZE cfg then
             (case strcmp (message_buffer[bytes_received := NULL_CHARACTER])
                     (''LED ON ACK'' @ [NULL_CHARACTER]) of
                None \<Rightarrow> Inl Unterminated_string
              | Some c \<Rightarrow>
                  Inr (result,
                       w1\<lparr>led_state :=
                            (if c = 0 then CYBSP_LED_STATE_ON else CYBSP_LED_STATE_OFF)\<rparr>))
           else Inl (Out_of_bounds_write bytes_received))
        else if result = CY_RSLT_MODULE_SECURE_SOCKETS_CLOSED
        then Inr (result, disconnect_and_delete socket_handle w1)
        else Inr (result, w1))"

text \<open>
  \<^verbatim>\<open>tcp_disconnection_handler\<close>. \<open>result\<close> is what \<^verbatim>\<open>cy_socket_disconnect\<close> returns.
\<close>

definition tcp_disconnection_handler :: "nat \<Rightarrow> cy_rslt \<Rightarrow> world \<Rightarrow> cy_rslt \<times> world" where
  "tcp_disconnection_handler socket_handle result w =
     (result, (disconnect_and_delete socket_handle w)\<lparr>client_connected := False\<rparr>)"

section \<open>Network bring-up\<close>

text \<open>
  Modelled from the spec: \<^verbatim>\<open>handle_app_error\<close> is declared in a header that is not part
  of the sources. The spec calls every failure that reaches it fatal ("process
  halt/reset"): the function does not return.
\<close>

definition handle_app_error :: "world \<Rightarrow> stop" where
  "handle_app_error w = Halted (log_call Handle_app_error w)"

text \<open>
  What the Ethernet connection manager answers: to the two initialisations, to the
  \<open>n\<close>-th call of \<^verbatim>\<open>cy_ecm_connect\<close> (result and assigned IPv4 address), and to
  \<^verbatim>\<open>cy_ecm_get_ipv6_address\<close> (the address it stores in the local \<^verbatim>\<open>ip_addr\<close> is only
  printed and then overwritten, see below, so it is not part of the answer).
\<close>

record ecm_env =
  ecm_init_result :: cy_rslt
  ecm_ethif_init_result :: cy_rslt
  ecm_connect_result :: "nat \<Rightarrow> cy_rslt"
  ecm_connect_ip_v4 :: "nat \<Rightarrow> 32 word"
  ecm_get_ipv6_result :: cy_rslt

text \<open>
  The \<^verbatim>\<open>while(true)\<close> loop of \<^verbatim>\<open>connect_to_ethernet\<close>; \<open>n\<close> counts the calls of
  \<^verbatim>\<open>cy_ecm_connect\<close> made so far and \<open>retry_count\<close> is the \<^verbatim>\<open>uint8_t\<close> of the source.
  In the IPv6 build the \<^verbatim>\<open>memcpy\<close> has the local \<^verbatim>\<open>ip_addr\<close> as destination and
  \<^verbatim>\<open>tcp_server_addr\<close> as source, so it leaves the address of \<^verbatim>\<open>tcp_server_addr\<close> as it
  is. In the IPv4 build the assignment to \<^verbatim>\<open>v4\<close> writes the first word of the union.
\<close>

function connect_loop ::
    "build_config \<Rightarrow> ecm_env \<Rightarrow> nat \<Rightarrow> 8 word \<Rightarrow> world \<Rightarrow> cy_rslt \<times> world" where
  "connect_loop cfg env n retry_count w =
     (let w1 = log_call Cy_ecm_connect w;
          result = ecm_connect_result env n
      in
        if result \<noteq> CY_RSLT_SUCCESS then
          (if retry_count + 1 \<ge> MAX_ETH_RETRY_COUNT then (result, w1)
           else connect_loop cfg env (Suc n) (retry_count + 1) w1)
        else if USE_IPV6_ADDRESS cfg then
          (let w2 = log_call Cy_ecm_get_ipv6_address w1;
               result6 = ecm_get_ipv6_result env
           in
             if result6 = CY_RSLT_SUCCESS
             then (result6,
                   w2\<lparr>tcp_server_addr :=
                        (tcp_server_addr w2)\<lparr>version := CY_SOCKET_IP_VER_V6,
                                              port := TCP_SERVER_PORT cfg\<rparr>\<rparr>)
             else (result6, w2))
        else
          (result,
           w1\<lparr>tcp_server_addr :=
                (tcp_server_addr w1)\<lparr>ip := (ip (tcp_server_addr w1))[0 := ecm_connect_ip_v4 env n],
                                      version := CY_SOCKET_IP_VER_V4,
                                      port := TCP_SERVER_PORT cfg\<rparr>\<rparr>))"
  by pat_completeness auto
termination
proof (relation "measure (\<lambda>(cfg, env, n, retry_count, w). unat (2 - retry_count))")
  show "wf (measure (\<lambda>(cfg, env, n, retry_count, w). unat (2 - retry_count)))"
    by simp
next
  fix cfg :: build_config and env :: ecm_env and n :: nat
    and retry_count :: "8 word" and w x xa :: world and xb :: cy_rslt
  assume "\<not> MAX_ETH_RETRY_COUNT \<le> retry_count + 1"
  then have "retry_count + 1 < 3"
    by (simp add: MAX_ETH_RETRY_COUNT_def not_le)
  then have "retry_count + 1 = 0 \<or> retry_count + 1 = 1 \<or> retry_count + 1 = 2"
    by unat_arith
  then have "retry_count = 0 - 1 \<or> retry_count = 1 - 1 \<or> retry_count = 2 - 1"
    by (metis add_diff_cancel_right')
  then have "retry_count = - 1 \<or> retry_count = 0 \<or> retry_count = 1"
    by simp
  then have "unat (2 - (retry_count + 1)) < unat (2 - retry_count)"
    by auto
  then show "((cfg, env, Suc n, retry_count + 1, xa), cfg, env, n, retry_count, w)
      \<in> measure (\<lambda>(cfg, env, n, retry_count, w). unat (2 - retry_count))"
    by simp
qed

declare connect_loop.simps [simp del]

text \<open>\<^verbatim>\<open>connect_to_ethernet\<close>.\<close>

definition connect_to_ethernet ::
    "build_config \<Rightarrow> ecm_env \<Rightarrow> world \<Rightarrow> stop + cy_rslt \<times> world" where
  "connect_to_ethernet cfg env w =
     (let w1 = log_call Cy_ecm_init w in
      if ecm_init_result env \<noteq> CY_RSLT_SUCCESS then Inl (handle_app_error w1)
      else
        (let w2 = log_call Cy_ecm_ethif_init w1 in
         if ecm_ethif_init_result env \<noteq> CY_RSLT_SUCCESS then Inl (handle_app_error w2)
         else Inr (connect_loop cfg env 0 0 w2)))"

section \<open>Secure listening socket\<close>

text \<open>
  What the secure sockets library answers during the setup: to \<^verbatim>\<open>cy_socket_create\<close>
  (result and what it leaves in \<^verbatim>\<open>server_handle\<close>), to \<^verbatim>\<open>cy_socket_setsockopt\<close> for each option, and
  to \<^verbatim>\<open>cy_socket_bind\<close>.
\<close>

record sock_env =
  socket_create_result :: cy_rslt
  socket_create_handle :: nat
  setsockopt_result :: "sockopt \<Rightarrow> cy_rslt"
  bind_result :: cy_rslt

text \<open>
  \<^verbatim>\<open>create_secure_tcp_server_socket\<close>. The call that sets
  \<^verbatim>\<open>CY_SOCKET_SO_TLS_AUTH_MODE\<close> is the only one whose result the source does not
  assign to \<^verbatim>\<open>result\<close>.
\<close>

definition create_secure_tcp_server_socket :: "sock_env \<Rightarrow> world \<Rightarrow> cy_rslt \<times> world" where
  "create_secure_tcp_server_socket env w =
     (let w1 = (log_call Cy_socket_create w)\<lparr>server_handle := socket_create_handle env\<rparr>;
          result = socket_create_result env
      in
      if result \<noteq> CY_RSLT_SUCCESS then (result, w1)
      else
     (let w2 = log_call (Cy_socket_setsockopt CY_SOCKET_SO_RCVTIMEO) w1;
          result = setsockopt_result env CY_SOCKET_SO_RCVTIMEO
      in
      if result \<noteq> CY_RSLT_SUCCESS then (result, w2)
      else
     (let w3 = log_call (Cy_socket_setsockopt CY_SOCKET_SO_CONNECT_REQUEST_CALLBACK) w2;
          result = setsockopt_result env CY_SOCKET_SO_CONNECT_REQUEST_CALLBACK
      in
      if result \<noteq> CY_RSLT_SUCCESS then (result, w3)
      else
     (let w4 = log_call (Cy_socket_setsockopt CY_SOCKET_SO_RECEIVE_CALLBACK) w3;
          result = setsockopt_result env CY_SOCKET_SO_RECEIVE_CALLBACK
      in
      if result \<noteq> CY_RSLT_SUCCESS then (result, w4)
      else
     (let w5 = log_call (Cy_socket_setsockopt CY_SOCKET_SO_DISCONNECT_CALLBACK) w4;
          result = setsockopt_result env CY_SOCKET_SO_DISCONNECT_CALLBACK
      in
      if result \<noteq> CY_RSLT_SUCCESS then (result, w5)
      else
     (let w6 = log_call (Cy_socket_setsockopt CY_SOCKET_SO_TLS_IDENTITY) w5;
          result = setsockopt_result env CY_SOCKET_SO_TLS_IDENTITY
      in
      if result \<noteq> CY_RSLT_SUCCESS then (result, w6)
      else
     (let w7 = log_call (Cy_socket_setsockopt CY_SOCKET_SO_TLS_AUTH_MODE) w6;
          w8 = log_call (Cy_socket_bind (tcp_server_addr w7)) w7;
          result = bind_result env
      in (result, w8))))))))"

section \<open>Command dispatch loop: the server task\<close>

text \<open>What the libraries answer while the task starts up.\<close>

record task_env =
  sysint_init_ok :: bool
  ecm :: ecm_env
  socket_init_result :: cy_rslt
  tls_create_identity_result :: cy_rslt
  tls_load_root_ca_result :: cy_rslt
  sock :: sock_env
  listen_result :: cy_rslt

text \<open>
  \<^verbatim>\<open>tcp_secure_server_task\<close> up to its \<^verbatim>\<open>while(true)\<close> loop: \<open>Inr\<close> is the state in
  which the loop is entered.
\<close>

definition tcp_secure_server_task_startup ::
    "build_config \<Rightarrow> task_env \<Rightarrow> world \<Rightarrow> stop + world" where
  "tcp_secure_server_task_startup cfg env w =
     (let w1 = log_call Cy_SysInt_Init w in
      if \<not> sysint_init_ok env then Inl (handle_app_error w1)
      else
     (case connect_to_ethernet cfg (ecm env) w1 of
        Inl s \<Rightarrow> Inl s
      | Inr (result, w2) \<Rightarrow>
      if result \<noteq> CY_RSLT_SUCCESS then Inl (handle_app_error w2)
      else
     (let w3 = log_call Cy_socket_init w2 in
      if socket_init_result env \<noteq> CY_RSLT_SUCCESS then Inl (handle_app_error w3)
      else
     (let w4 = log_call Cy_tls_create_identity w3 in
      if tls_create_identity_result env \<noteq> CY_RSLT_SUCCESS then Inl (handle_app_error w4)
      else
     (let w5 = log_call Cy_tls_load_global_root_ca_certificates w4 in
      if tls_load_root_ca_result env \<noteq> CY_RSLT_SUCCESS then Inl (handle_app_error w5)
      else
     (case create_secure_tcp_server_socket (sock env) w5 of
        (result, w6) \<Rightarrow>
      if result \<noteq> CY_RSLT_SUCCESS then Inl (handle_app_error w6)
      else
     (let w7 = log_call (Cy_socket_listen (server_handle w6)) w6 in
      if listen_result env \<noteq> CY_RSLT_SUCCESS
      then Inl (handle_app_error (log_call (Cy_socket_delete (server_handle w7)) w7))
      else Inr w7)))))))"

text \<open>
  One iteration of the \<^verbatim>\<open>while(true)\<close> loop of \<^verbatim>\<open>tcp_secure_server_task\<close>.
  \<open>send_result\<close> is what \<^verbatim>\<open>cy_socket_send\<close> returns; one byte of \<^verbatim>\<open>led_state_cmd\<close> is
  sent (\<^verbatim>\<open>TCP_LED_CMD_LEN\<close> is 1), on the little-endian target the low one. The locals
  \<^verbatim>\<open>led_state_cmd\<close> and \<^verbatim>\<open>bytes_sent\<close> are written before they are read in every
  iteration, so they are not part of the state.
\<close>

definition server_task_loop_body :: "cy_rslt \<Rightarrow> world \<Rightarrow> stop + world" where
  "server_task_loop_body send_result w =
     (case xTaskNotifyWait (notification w) of
        None \<Rightarrow> Inl Task_blocked
      | Some (led_state_cmd, n) \<Rightarrow>
          (let w1 = w\<lparr>notification := n\<rparr> in
           if client_connected w1 then
             (let w2 = log_call (Cy_socket_send (client_handle w1) (ucast led_state_cmd)) w1 in
              if send_result = CY_RSLT_SUCCESS then Inr w2
              else if send_result = CY_RSLT_MODULE_SECURE_SOCKETS_CLOSED
              then Inr (disconnect_and_delete (client_handle w2) w2)
              else Inr w2)
           else Inr w1))"

section \<open>Runs of the system\<close>

text \<open>
  The events that drive the code once it is started: an interrupt of the button line,
  the three socket callbacks, and one iteration of the task's loop, each with what the
  environment supplies.
\<close>

datatype event =
    Button_irq bool "32 word" "32 word"
  | Connect_request cy_rslt nat
  | Receive nat cy_rslt string string
  | Disconnect nat cy_rslt
  | Task_loop cy_rslt

text \<open>
  One event: the handler of the source is called, in whatever state the system is. The
  connect request is handled on the listening socket. A receive event comes with a
  buffer of \<^verbatim>\<open>MAX_TCP_RECV_BUFFER_SIZE\<close> characters and at most that many received (the
  size of the array and the length given to \<^verbatim>\<open>cy_socket_recv\<close>); other shapes are not
  events.
\<close>

definition step :: "build_config \<Rightarrow> event \<Rightarrow> world \<Rightarrow> stop + world" where
  "step cfg e w =
     (case e of
        Button_irq btn1_status tick1 tick2 \<Rightarrow>
          Inr (user_button_interrupt_handler cfg btn1_status tick1 tick2 w)
      | Connect_request result new_handle \<Rightarrow>
          Inr (snd (tcp_connection_handler (server_handle w) result new_handle w))
      | Receive h result payload stack \<Rightarrow>
          (if length stack = MAX_TCP_RECV_BUFFER_SIZE cfg
                \<and> length payload \<le> MAX_TCP_RECV_BUFFER_SIZE cfg
           then (case tcp_receive_msg_handler cfg h result payload stack w of
                   Inl s \<Rightarrow> Inl s
                 | Inr (r, w') \<Rightarrow> Inr w')
           else Inl Not_delivered)
      | Disconnect h result \<Rightarrow> Inr (snd (tcp_disconnection_handler h result w))
      | Task_loop send_result \<Rightarrow> server_task_loop_body send_result w)"

fun run :: "build_config \<Rightarrow> event list \<Rightarrow> world \<Rightarrow> stop + world" where
  "run cfg [] w = Inr w"
| "run cfg (e # es) w =
     (case step cfg e w of
        Inl s \<Rightarrow> Inl s
      | Inr w' \<Rightarrow> run cfg es w')"

text \<open>A build used for concrete runs: IPv4, port 50007, a buffer of 20, 1 ms per tick.\<close>

definition example_config :: build_config where
  "example_config =
     \<lparr> USE_IPV6_ADDRESS = False, TCP_SERVER_PORT = 50007,
       MAX_TCP_RECV_BUFFER_SIZE = 20, portTICK_PERIOD_MS = 1 \<rparr>"

section \<open>Notions used in the statements\<close>





text \<open>
  The open client sockets agree with the events delivered so far: none is open, or the
  only open one is held in \<^verbatim>\<open>client_handle\<close> and is the client whose disconnect event
  is still to come.
\<close>

definition tracks_client :: "nat option \<Rightarrow> world \<Rightarrow> bool" where
  "tracks_client cur w =
     (open_clients w = []
      \<or> (cur = Some (client_handle w) \<and> open_clients w = [client_handle w]))"


text \<open>
  The events in which a payload is received whose characters up to the first
  terminator are \<^verbatim>\<open>LED ON ACK\<close>.
\<close>

fun received_led_on_ack :: "event \<Rightarrow> bool" where
  "received_led_on_ack (Receive h result payload stack) =
     (result = CY_RSLT_SUCCESS
      \<and> takeWhile (\<lambda>x. x \<noteq> NULL_CHARACTER) payload = ''LED ON ACK'')"
| "received_led_on_ack _ = False"

text \<open>The number of calls of \<^verbatim>\<open>cy_ecm_connect\<close> in the trace.\<close>

definition ecm_connect_calls :: "world \<Rightarrow> nat" where
  "ecm_connect_calls w = count_list (trace w) Cy_ecm_connect"

text \<open>
  Two environments for concrete runs of the bring-up: in the first the link comes up at
  the third attempt with the address 192.168.1.5, in the second it never does.
\<close>

definition third_attempt_env :: ecm_env where
  "third_attempt_env =
     \<lparr> ecm_init_result = CY_RSLT_SUCCESS,
       ecm_ethif_init_result = CY_RSLT_SUCCESS,
       ecm_connect_result = (\<lambda>n. if n = 2 then CY_RSLT_SUCCESS else CY_RSLT_OTHER 1),
       ecm_connect_ip_v4 = (\<lambda>n. 0xC0A80105),
       ecm_get_ipv6_result = CY_RSLT_SUCCESS \<rparr>"

definition no_link_env :: ecm_env where
  "no_link_env =
     \<lparr> ecm_init_result = CY_RSLT_SUCCESS,
       ecm_ethif_init_result = CY_RSLT_SUCCESS,
       ecm_connect_result = (\<lambda>n. CY_RSLT_OTHER 1),
       ecm_connect_ip_v4 = (\<lambda>n. 0),
       ecm_get_ipv6_result = CY_RSLT_SUCCESS \<rparr>"

definition all_ok_sock_env :: sock_env where
  "all_ok_sock_env =
     \<lparr> socket_create_result = CY_RSLT_SUCCESS,
       socket_create_handle = 5,
       setsockopt_result = (\<lambda>opt. CY_RSLT_SUCCESS),
       bind_result = CY_RSLT_SUCCESS \<rparr>"

definition no_link_task_env :: task_env where
  "no_link_task_env =
     \<lparr> sysint_init_ok = True,
       ecm = no_link_env,
       socket_init_result = CY_RSLT_SUCCESS,
       tls_create_identity_result = CY_RSLT_SUCCESS,
       tls_load_root_ca_result = CY_RSLT_SUCCESS,
       sock = all_ok_sock_env,
       listen_result = CY_RSLT_SUCCESS \<rparr>"

section \<open>The command dispatch loop while no client is connected\<close>

text \<open>
  Claim C7. In an iteration of the dispatch loop that receives a command value while
  \<^verbatim>\<open>client_connected\<close> reads false, \<^verbatim>\<open>cy_socket_send\<close> is not called and the value is
  discarded: the iteration ends without error, the trace of library calls is the one
  before, and the only change of the state is that the notification is consumed.
\<close>

theorem dispatch_discards_when_not_connected:
  assumes "\<not> client_connected w"
    and "xTaskNotifyWait (notification w) = Some (cmd, n)"
  shows "server_task_loop_body send_result w = Inr (w\<lparr>notification := n\<rparr>)
         \<and> trace (w\<lparr>notification := n\<rparr>) = trace w"
  using assms by (simp add: server_task_loop_body_def)

theorem dispatch_discards_when_not_connected_witness:
  "\<not> client_connected
       (initial_world\<lparr>notification :=
          \<lparr>notification_pending = True, ulNotifiedValue = LED_ON_CMD\<rparr>\<rparr>)
   \<and> server_task_loop_body CY_RSLT_SUCCESS
        (initial_world\<lparr>notification :=
           \<lparr>notification_pending = True, ulNotifiedValue = LED_ON_CMD\<rparr>\<rparr>)
      = Inr (initial_world\<lparr>notification :=
               \<lparr>notification_pending = False, ulNotifiedValue = LED_ON_CMD\<rparr>\<rparr>)"
  using dispatch_discards_when_not_connected
    [of "initial_world\<lparr>notification :=
           \<lparr>notification_pending = True, ulNotifiedValue = LED_ON_CMD\<rparr>\<rparr>"
        LED_ON_CMD "\<lparr>notification_pending = False, ulNotifiedValue = LED_ON_CMD\<rparr>"
        CY_RSLT_SUCCESS]
  by (simp add: initial_world_def xTaskNotifyWait_def)

section \<open>A signal raised while another one is pending\<close>

text \<open>
  Claim C3 says that a value signalled while a prior signal is pending overwrites it, so
  that the task later observes the newest value. The handler notifies with
  \<^verbatim>\<open>eSetValueWithoutOverwrite\<close>. In the run below the first press signals \<open>'1'\<close>; before
  the task consumes it the client's acknowledgement turns the mirrored LED state on and
  a second press signals \<open>'0'\<close>; the task then observes \<open>'1'\<close>, the older value.
\<close>

theorem pending_signal_overwrite_counterexample:
  "(case run example_config
           [Button_irq True 200 200,
            Connect_request CY_RSLT_SUCCESS 7,
            Receive 7 CY_RSLT_SUCCESS ''LED ON ACK'' ''garbage-on-the-stack'',
            Button_irq True 400 400] initial_world of
      Inr w \<Rightarrow> last (trace w) = XTaskNotifyFromISR LED_OFF_CMD
               \<and> map_option fst (xTaskNotifyWait (notification w)) = Some LED_ON_CMD
    | Inl s \<Rightarrow> False)"
  by (simp add: step_def user_button_interrupt_handler_def example_config_def initial_world_def
      DEBOUNCE_TIME_MS_def log_call_def xTaskNotifyFromISR_def xTaskNotifyWait_def
      tcp_connection_handler_def tcp_receive_msg_handler_def NULL_CHARACTER_def
      LED_ON_CMD_def LED_OFF_CMD_def Let_def)

text \<open>
  Claim C3, amended. A signal raised while a prior signal is pending and unconsumed
  returns at once (with \<^verbatim>\<open>pdFAIL\<close>) and is dropped: the notification slot is left as
  it is, and the value the task observes next is the one that was pending.
\<close>

theorem signal_dropped_while_pending:
  assumes "notification_pending (notification w)"
  shows "xTaskNotifyFromISR v (notification w) = (False, notification w)
     \<and> notification (user_button_interrupt_handler cfg b t1 t2 w) = notification w
     \<and> xTaskNotifyWait (notification (user_button_interrupt_handler cfg b t1 t2 w))
         = Some (ulNotifiedValue (notification w),
                 (notification w)\<lparr>notification_pending := False\<rparr>)"
  using assms
  by (simp add: user_button_interrupt_handler_def xTaskNotifyFromISR_def xTaskNotifyWait_def
      log_call_def Let_def)

theorem signal_dropped_while_pending_witness:
  "notification_pending
     (notification (initial_world\<lparr>notification :=
        \<lparr>notification_pending = True, ulNotifiedValue = LED_ON_CMD\<rparr>\<rparr>))
   \<and> xTaskNotifyWait
       (notification
          (user_button_interrupt_handler example_config True 400 400
             (initial_world\<lparr>notification :=
                \<lparr>notification_pending = True, ulNotifiedValue = LED_ON_CMD\<rparr>\<rparr>)))
      = Some (LED_ON_CMD, \<lparr>notification_pending = False, ulNotifiedValue = LED_ON_CMD\<rparr>)"
  using signal_dropped_while_pending
    [of "initial_world\<lparr>notification :=
           \<lparr>notification_pending = True, ulNotifiedValue = LED_ON_CMD\<rparr>\<rparr>"
        LED_OFF_CMD example_config True 400 400]
  by (simp add: initial_world_def xTaskNotifyWait_def)

section \<open>The terminator of the received string\<close>

text \<open>
  Claim C2 asks that the index at which the terminator is written is below
  \<^verbatim>\<open>MAX_TCP_RECV_BUFFER_SIZE\<close>. The source writes it at index \<^verbatim>\<open>bytes_received\<close> without
  a check, and \<^verbatim>\<open>cy_socket_recv\<close> is given the whole buffer: when it fills the buffer
  the write goes to index \<^verbatim>\<open>MAX_TCP_RECV_BUFFER_SIZE\<close>, one past the last element.
\<close>

theorem terminator_written_past_buffer:
  assumes "length payload = MAX_TCP_RECV_BUFFER_SIZE cfg"
  shows "tcp_receive_msg_handler cfg h CY_RSLT_SUCCESS payload stack w
           = Inl (Out_of_bounds_write (MAX_TCP_RECV_BUFFER_SIZE cfg))"
  using assms by (simp add: tcp_receive_msg_handler_def Let_def)

theorem terminator_written_past_buffer_witness:
  "length ''twenty-bytes-payload'' = MAX_TCP_RECV_BUFFER_SIZE example_config
   \<and> tcp_receive_msg_handler example_config 7 CY_RSLT_SUCCESS ''twenty-bytes-payload''
        ''garbage-on-the-stack'' initial_world
       = Inl (Out_of_bounds_write 20)"
  using terminator_written_past_buffer
    [of "''twenty-bytes-payload''" example_config 7 "''garbage-on-the-stack''" initial_world]
  by (simp add: example_config_def)

section \<open>The peer-closed error\<close>

text \<open>
  Claim C1 asks that after a peer-closed error of the receive path or of the send path
  the socket is disconnected and deleted and \<^verbatim>\<open>client_connected\<close> reads false. Both
  paths disconnect and delete the socket, and neither writes \<^verbatim>\<open>client_connected\<close>
  (only \<^verbatim>\<open>tcp_disconnection_handler\<close> does): after a client was accepted and the
  error occurred, the flag still reads true while no client socket is open.
\<close>

theorem peer_closed_leaves_connected_flag:
  "(case run example_config
           [Connect_request CY_RSLT_SUCCESS 7,
            Receive 7 CY_RSLT_MODULE_SECURE_SOCKETS_CLOSED [] ''garbage-on-the-stack'']
           initial_world of
      Inr w \<Rightarrow> client_connected w \<and> open_clients w = []
               \<and> trace w = [Cy_socket_accept 0, Cy_socket_recv 7,
                            Cy_socket_disconnect 7, Cy_socket_delete 7]
    | Inl s \<Rightarrow> False)
   \<and>
   (case run example_config
           [Connect_request CY_RSLT_SUCCESS 7,
            Button_irq True 200 200,
            Task_loop CY_RSLT_MODULE_SECURE_SOCKETS_CLOSED]
           initial_world of
      Inr w \<Rightarrow> client_connected w \<and> open_clients w = []
               \<and> trace w = [Cy_socket_accept 0, XTaskNotifyFromISR LED_ON_CMD,
                            Cy_socket_send 7 49,
                            Cy_socket_disconnect 7, Cy_socket_delete 7]
    | Inl s \<Rightarrow> False)"
  by (simp add: step_def user_button_interrupt_handler_def example_config_def initial_world_def
      DEBOUNCE_TIME_MS_def log_call_def xTaskNotifyFromISR_def xTaskNotifyWait_def
      tcp_connection_handler_def tcp_receive_msg_handler_def NULL_CHARACTER_def
      server_task_loop_body_def disconnect_and_delete_def
      LED_ON_CMD_def LED_OFF_CMD_def Let_def)

section \<open>The steps of the socket setup\<close>

text \<open>
  The calls of the setup are made in one fixed order, the setup stopping after any of
  them; and it reports success exactly when every step other than the one that sets
  \<^verbatim>\<open>CY_SOCKET_SO_TLS_AUTH_MODE\<close> succeeds.
\<close>

lemma setup_succeeds_iff:
  "fst (create_secure_tcp_server_socket env w) = CY_RSLT_SUCCESS \<longleftrightarrow>
     socket_create_result env = CY_RSLT_SUCCESS
   \<and> setsockopt_result env CY_SOCKET_SO_RCVTIMEO = CY_RSLT_SUCCESS
   \<and> setsockopt_result env CY_SOCKET_SO_CONNECT_REQUEST_CALLBACK = CY_RSLT_SUCCESS
   \<and> setsockopt_result env CY_SOCKET_SO_RECEIVE_CALLBACK = CY_RSLT_SUCCESS
   \<and> setsockopt_result env CY_SOCKET_SO_DISCONNECT_CALLBACK = CY_RSLT_SUCCESS
   \<and> setsockopt_result env CY_SOCKET_SO_TLS_IDENTITY = CY_RSLT_SUCCESS
   \<and> bind_result env = CY_RSLT_SUCCESS"
  by (simp add: create_secure_tcp_server_socket_def Let_def)

lemma setup_calls_in_order:
  "\<exists>n. trace (snd (create_secure_tcp_server_socket env w))
        = trace w @ take n
            [Cy_socket_create,
             Cy_socket_setsockopt CY_SOCKET_SO_RCVTIMEO,
             Cy_socket_setsockopt CY_SOCKET_SO_CONNECT_REQUEST_CALLBACK,
             Cy_socket_setsockopt CY_SOCKET_SO_RECEIVE_CALLBACK,
             Cy_socket_setsockopt CY_SOCKET_SO_DISCONNECT_CALLBACK,
             Cy_socket_setsockopt CY_SOCKET_SO_TLS_IDENTITY,
             Cy_socket_setsockopt CY_SOCKET_SO_TLS_AUTH_MODE,
             Cy_socket_bind (tcp_server_addr w)]"
proof -
  let ?calls = "[Cy_socket_create,
             Cy_socket_setsockopt CY_SOCKET_SO_RCVTIMEO,
             Cy_socket_setsockopt CY_SOCKET_SO_CONNECT_REQUEST_CALLBACK,
             Cy_socket_setsockopt CY_SOCKET_SO_RECEIVE_CALLBACK,
             Cy_socket_setsockopt CY_SOCKET_SO_DISCONNECT_CALLBACK,
             Cy_socket_setsockopt CY_SOCKET_SO_TLS_IDENTITY,
             Cy_socket_setsockopt CY_SOCKET_SO_TLS_AUTH_MODE,
             Cy_socket_bind (tcp_server_addr w)]"
  have "trace (snd (create_secure_tcp_server_socket env w)) = trace w @ take 1 ?calls
      \<or> trace (snd (create_secure_tcp_server_socket env w)) = trace w @ take 2 ?calls
      \<or> trace (snd (create_secure_tcp_server_socket env w)) = trace w @ take 3 ?calls
      \<or> trace (snd (create_secure_tcp_server_socket env w)) = trace w @ take 4 ?calls
      \<or> trace (snd (create_secure_tcp_server_socket env w)) = trace w @ take 5 ?calls
      \<or> trace (snd (create_secure_tcp_server_socket env w)) = trace w @ take 6 ?calls
      \<or> trace (snd (create_secure_tcp_server_socket env w)) = trace w @ take 8 ?calls"
    by (simp add: create_secure_tcp_server_socket_def log_call_def Let_def)
  then show ?thesis by blast
qed

text \<open>
  Claim C4 asks that every step of \<^verbatim>\<open>create_secure_tcp_server_socket\<close> that fails aborts
  the setup and reaches the caller. The steps run in the order of the claim, and seven
  of the eight return their failure at once; the result of the step that makes peer
  verification mandatory (\<^verbatim>\<open>CY_SOCKET_SO_TLS_AUTH_MODE\<close>) is not looked at. When that
  step alone fails, the bind still runs and the function returns \<^verbatim>\<open>CY_RSLT_SUCCESS\<close>.
\<close>

theorem auth_mode_failure_ignored:
  "create_secure_tcp_server_socket
     \<lparr> socket_create_result = CY_RSLT_SUCCESS,
       socket_create_handle = 5,
       setsockopt_result =
         (\<lambda>opt. if opt = CY_SOCKET_SO_TLS_AUTH_MODE then CY_RSLT_OTHER 1 else CY_RSLT_SUCCESS),
       bind_result = CY_RSLT_SUCCESS \<rparr>
     initial_world
   = (CY_RSLT_SUCCESS,
      initial_world
        \<lparr> server_handle := 5,
          trace := [Cy_socket_create,
                    Cy_socket_setsockopt CY_SOCKET_SO_RCVTIMEO,
                    Cy_socket_setsockopt CY_SOCKET_SO_CONNECT_REQUEST_CALLBACK,
                    Cy_socket_setsockopt CY_SOCKET_SO_RECEIVE_CALLBACK,
                    Cy_socket_setsockopt CY_SOCKET_SO_DISCONNECT_CALLBACK,
                    Cy_socket_setsockopt CY_SOCKET_SO_TLS_IDENTITY,
                    Cy_socket_setsockopt CY_SOCKET_SO_TLS_AUTH_MODE,
                    Cy_socket_bind (tcp_server_addr initial_world)] \<rparr>)"
  by (simp add: create_secure_tcp_server_socket_def log_call_def initial_world_def Let_def)

section \<open>The acknowledgement string\<close>

text \<open>
  The comparison made by \<^verbatim>\<open>strcmp\<close> on a terminated buffer: it yields 0 exactly when the
  characters before the first terminator are those of the literal.
\<close>

lemma strcmp_terminated:
  assumes "NULL_CHARACTER \<notin> set lit"
  shows "\<exists>c. strcmp (p @ NULL_CHARACTER # rest) (lit @ [NULL_CHARACTER]) = Some c
           \<and> (c = 0 \<longleftrightarrow> takeWhile (\<lambda>x. x \<noteq> NULL_CHARACTER) p = lit)"
  using assms
proof (induction p arbitrary: lit)
  case Nil
  then show ?case by (cases lit) auto
next
  case (Cons a p)
  show ?case
  proof (cases lit)
    case Nil
    then show ?thesis by auto
  next
    case (Cons l ls)
    with Cons.prems have l: "l \<noteq> NULL_CHARACTER" and ls: "NULL_CHARACTER \<notin> set ls"
      by auto
    show ?thesis
    proof (cases "a = l")
      case True
      with Cons.IH [OF ls] l Cons show ?thesis by simp
    next
      case False
      with Cons show ?thesis by auto
    qed
  qed
qed

lemma message_buffer_terminated:
  assumes "length stack = cap" and "length payload < cap"
  shows "(payload @ drop (length payload) stack)[length payload := NULL_CHARACTER]
           = payload @ NULL_CHARACTER # drop (Suc (length payload)) stack"
proof -
  from assms have "drop (length payload) stack
      = stack ! length payload # drop (Suc (length payload)) stack"
    by (simp add: Cons_nth_drop_Suc)
  then show ?thesis by (simp add: list_update_append)
qed

lemma receive_success:
  assumes "length stack = MAX_TCP_RECV_BUFFER_SIZE cfg"
    and "length payload < MAX_TCP_RECV_BUFFER_SIZE cfg"
  shows "tcp_receive_msg_handler cfg h CY_RSLT_SUCCESS payload stack w
       = Inr (CY_RSLT_SUCCESS,
              (log_call (Cy_socket_recv h) w)\<lparr>led_state :=
                 (if takeWhile (\<lambda>x. x \<noteq> NULL_CHARACTER) payload = ''LED ON ACK''
                  then CYBSP_LED_STATE_ON else CYBSP_LED_STATE_OFF)\<rparr>)"
proof -
  have lit: "NULL_CHARACTER \<notin> set ''LED ON ACK''"
    by (simp add: NULL_CHARACTER_def)
  obtain c where c: "strcmp (payload @ NULL_CHARACTER # drop (Suc (length payload)) stack)
                        (''LED ON ACK'' @ [NULL_CHARACTER]) = Some c"
      "c = 0 \<longleftrightarrow> takeWhile (\<lambda>x. x \<noteq> NULL_CHARACTER) payload = ''LED ON ACK''"
    using strcmp_terminated [OF lit] by blast
  show ?thesis
    unfolding tcp_receive_msg_handler_def Let_def
    using assms c by (simp only: message_buffer_terminated [OF assms]) simp
qed

text \<open>
  Claim C6 says that the mirrored LED state becomes ON exactly when the payload is, byte
  for byte, \<^verbatim>\<open>LED ON ACK\<close>. The source compares with \<^verbatim>\<open>strcmp\<close>, which stops at the first
  terminator: a payload that continues after \<^verbatim>\<open>LED ON ACK\<close> with a zero byte, such as the
  eleven bytes a client sends when it includes the terminator, also sets the state ON.
\<close>

theorem byte_exact_ack_counterexample:
  "''LED ON ACK'' @ [CHR 0x00] \<noteq> ''LED ON ACK''
   \<and> (case tcp_receive_msg_handler example_config 7 CY_RSLT_SUCCESS
             (''LED ON ACK'' @ [CHR 0x00]) ''garbage-on-the-stack'' initial_world of
        Inr (r, w) \<Rightarrow> led_state w = CYBSP_LED_STATE_ON
      | Inl s \<Rightarrow> False)"
  by (simp add: tcp_receive_msg_handler_def example_config_def NULL_CHARACTER_def Let_def)

text \<open>
  Claim C6, amended. For every payload received successfully that leaves room for the
  terminator, the handler returns and sets the mirrored LED state to ON if and only if
  the characters of the payload before its first zero byte (the whole payload when it
  has none) are exactly \<^verbatim>\<open>LED ON ACK\<close>, compared case-sensitively and without trimming;
  otherwise it sets it to OFF. The content of the buffer beyond the payload plays no
  role.
\<close>

theorem led_on_iff_c_string_matches:
  assumes "length stack = MAX_TCP_RECV_BUFFER_SIZE cfg"
    and "length payload < MAX_TCP_RECV_BUFFER_SIZE cfg"
  shows "tcp_receive_msg_handler cfg h CY_RSLT_SUCCESS payload stack w
       = Inr (CY_RSLT_SUCCESS,
              (log_call (Cy_socket_recv h) w)\<lparr>led_state :=
                 (if takeWhile (\<lambda>x. x \<noteq> NULL_CHARACTER) payload = ''LED ON ACK''
                  then CYBSP_LED_STATE_ON else CYBSP_LED_STATE_OFF)\<rparr>)"
  using assms by (rule receive_success)

theorem led_on_iff_c_string_matches_witness:
  "length ''garbage-on-the-stack'' = MAX_TCP_RECV_BUFFER_SIZE example_config
   \<and> length ''LED ON ACK'' < MAX_TCP_RECV_BUFFER_SIZE example_config
   \<and> tcp_receive_msg_handler example_config 7 CY_RSLT_SUCCESS ''LED ON ACK''
        ''garbage-on-the-stack'' initial_world
      = Inr (CY_RSLT_SUCCESS,
             (log_call (Cy_socket_recv 7) initial_world)\<lparr>led_state := CYBSP_LED_STATE_ON\<rparr>)
   \<and> tcp_receive_msg_handler example_config 7 CY_RSLT_SUCCESS ''LED ON ACK ''
        ''garbage-on-the-stack'' initial_world
      = Inr (CY_RSLT_SUCCESS,
             (log_call (Cy_socket_recv 7) initial_world)\<lparr>led_state := CYBSP_LED_STATE_OFF\<rparr>)
   \<and> tcp_receive_msg_handler example_config 7 CY_RSLT_SUCCESS ''led on ack''
        ''garbage-on-the-stack'' initial_world
      = Inr (CY_RSLT_SUCCESS,
             (log_call (Cy_socket_recv 7) initial_world)\<lparr>led_state := CYBSP_LED_STATE_OFF\<rparr>)"
  using led_on_iff_c_string_matches
          [of "''garbage-on-the-stack''" example_config "''LED ON ACK''" 7 initial_world]
        led_on_iff_c_string_matches
          [of "''garbage-on-the-stack''" example_config "''LED ON ACK ''" 7 initial_world]
        led_on_iff_c_string_matches
          [of "''garbage-on-the-stack''" example_config "''led on ack''" 7 initial_world]
  by (simp add: example_config_def NULL_CHARACTER_def)

section \<open>The debounce window\<close>

text \<open>
  The flag \<^verbatim>\<open>button_debouncing\<close> is false whenever the interrupt handler is entered: the
  handler clears it before it returns and nothing else writes it.
\<close>

lemma isr_clears_debouncing:
  "\<not> button_debouncing w \<Longrightarrow>
   \<not> button_debouncing (user_button_interrupt_handler cfg b t1 t2 w)"
  by (simp add: user_button_interrupt_handler_def log_call_def Let_def)

lemma receive_keeps_debouncing:
  "tcp_receive_msg_handler cfg h r p st w = Inr (r', w') \<Longrightarrow>
   button_debouncing w' = button_debouncing w"
  by (auto simp: tcp_receive_msg_handler_def disconnect_and_delete_def log_call_def Let_def
      split: if_splits option.splits)

lemma loop_keeps_debouncing:
  "server_task_loop_body r w = Inr w' \<Longrightarrow> button_debouncing w' = button_debouncing w"
  by (auto simp: server_task_loop_body_def disconnect_and_delete_def log_call_def Let_def
      split: if_splits option.splits)

lemma step_keeps_debouncing_clear:
  assumes "step cfg e w = Inr w'" and "\<not> button_debouncing w"
  shows "\<not> button_debouncing w'"
proof (cases e)
  case (Button_irq b t1 t2)
  with assms show ?thesis by (auto simp: step_def isr_clears_debouncing)
next
  case (Connect_request r h)
  with assms show ?thesis
    by (auto simp: step_def tcp_connection_handler_def log_call_def Let_def split: if_splits)
next
  case (Receive h r p st)
  with assms show ?thesis
    by (auto simp: step_def split: if_splits sum.splits dest: receive_keeps_debouncing)
next
  case (Disconnect h r)
  with assms show ?thesis
    by (auto simp: step_def tcp_disconnection_handler_def disconnect_and_delete_def
        log_call_def Let_def)
next
  case (Task_loop r)
  with assms show ?thesis by (auto simp: step_def dest: loop_keeps_debouncing)
qed

lemma run_keeps_debouncing_clear:
  "run cfg evs w = Inr w' \<Longrightarrow> \<not> button_debouncing w \<Longrightarrow> \<not> button_debouncing w'"
proof (induction evs arbitrary: w)
  case Nil
  then show ?case by simp
next
  case (Cons e evs)
  then show ?case
    by (auto split: sum.splits dest: step_keeps_debouncing_clear)
qed

text \<open>
  With a tick period between 1 and 1000 ms the threshold of the source,
  \<^verbatim>\<open>DEBOUNCE_TIME_MS * portTICK_PERIOD_MS\<close>, does not wrap and is at least
  \<^verbatim>\<open>DEBOUNCE_TIME_MS\<close>.
\<close>

lemma debounce_threshold:
  fixes P x :: "32 word"
  assumes "1 \<le> P" and "P \<le> 1000" and "100 * P \<le> x"
  shows "100 \<le> x"
proof -
  from assms(1,2) have P: "1 \<le> unat P" "unat P \<le> 1000"
    by (simp_all add: word_le_nat_alt)
  then have "unat (100 :: 32 word) * unat P < 2 ^ LENGTH(32)"
    by simp
  then have "unat (100 * P) = unat (100 :: 32 word) * unat P"
    by (simp only: unat_mult_lem)
  with P have "100 \<le> unat (100 * P)"
    by simp
  then have "100 \<le> 100 * P"
    by (simp add: word_le_nat_alt)
  with assms(3) show ?thesis by simp
qed

text \<open>
  Claim C8. In every state reached by a run, for a tick period of 1 to 1000 ms (the
  range of \<^verbatim>\<open>1000 / configTICK_RATE_HZ\<close> for tick rates up to 1 kHz): an invocation of the
  handler signals the task only if the interrupt is the one of button 1, no press is in
  progress and at least \<^verbatim>\<open>DEBOUNCE_TIME_MS\<close> have passed (in 32-bit arithmetic) since
  the recorded timestamp, and exactly when the comparison of the source holds; an
  accepted edge makes exactly one call of \<^verbatim>\<open>xTaskNotifyFromISR\<close>, records the current
  time as the new timestamp and leaves the in-progress flag cleared; a rejected edge
  leaves the whole state, timestamp and flag included, as it was.
\<close>

theorem debounced_press_accepted_only_after_window:
  assumes "run cfg evs initial_world = Inr w"
    and "1 \<le> portTICK_PERIOD_MS cfg" and "portTICK_PERIOD_MS cfg \<le> 1000"
  shows "(isr_calls cfg b t1 t2 w \<noteq> [] \<longrightarrow>
            b \<and> \<not> button_debouncing w
            \<and> DEBOUNCE_TIME_MS \<le> t1 * portTICK_PERIOD_MS cfg - button_debounce_timestamp w)
       \<and> (isr_calls cfg b t1 t2 w \<noteq> [] \<longleftrightarrow>
            b \<and> DEBOUNCE_TIME_MS * portTICK_PERIOD_MS cfg
                  \<le> t1 * portTICK_PERIOD_MS cfg - button_debounce_timestamp w)
       \<and> (isr_calls cfg b t1 t2 w \<noteq> [] \<longrightarrow>
            (\<exists>cmd. isr_calls cfg b t1 t2 w = [XTaskNotifyFromISR cmd])
            \<and> button_debounce_timestamp (user_button_interrupt_handler cfg b t1 t2 w)
                = t2 * portTICK_PERIOD_MS cfg
            \<and> \<not> button_debouncing (user_button_interrupt_handler cfg b t1 t2 w))
       \<and> (isr_calls cfg b t1 t2 w = [] \<longrightarrow>
            user_button_interrupt_handler cfg b t1 t2 w = w)"
proof -
  have idle: "\<not> button_debouncing w"
    using assms(1) by (rule run_keeps_debouncing_clear) (simp add: initial_world_def)
  have thr: "DEBOUNCE_TIME_MS \<le> x" if "DEBOUNCE_TIME_MS * portTICK_PERIOD_MS cfg \<le> x" for x
    using debounce_threshold [OF assms(2,3)] that by (simp add: DEBOUNCE_TIME_MS_def)
  show ?thesis
    using idle thr
    by (simp add: isr_calls_def user_button_interrupt_handler_def log_call_def Let_def)
qed

theorem debounced_press_accepted_only_after_window_witness:
  "run example_config [Button_irq True 200 200] initial_world
     = Inr (initial_world
              \<lparr> button_debounce_timestamp := 200,
                notification := \<lparr>notification_pending = True, ulNotifiedValue = LED_ON_CMD\<rparr>,
                trace := [XTaskNotifyFromISR LED_ON_CMD] \<rparr>)
   \<and> (1::32 word) \<le> portTICK_PERIOD_MS example_config
   \<and> portTICK_PERIOD_MS example_config \<le> 1000
   \<and> isr_calls example_config True 250 250
        (initial_world
              \<lparr> button_debounce_timestamp := 200,
                notification := \<lparr>notification_pending = True, ulNotifiedValue = LED_ON_CMD\<rparr>,
                trace := [XTaskNotifyFromISR LED_ON_CMD] \<rparr>) = []
   \<and> isr_calls example_config True 300 300
        (initial_world
              \<lparr> button_debounce_timestamp := 200,
                notification := \<lparr>notification_pending = True, ulNotifiedValue = LED_ON_CMD\<rparr>,
                trace := [XTaskNotifyFromISR LED_ON_CMD] \<rparr>) \<noteq> []"
  using debounced_press_accepted_only_after_window
    [of example_config "[Button_irq True 200 200]"
        "initial_world
              \<lparr> button_debounce_timestamp := 200,
                notification := \<lparr>notification_pending = True, ulNotifiedValue = LED_ON_CMD\<rparr>,
                trace := [XTaskNotifyFromISR LED_ON_CMD] \<rparr>" True 250 250]
    debounced_press_accepted_only_after_window
    [of example_config "[Button_irq True 200 200]"
        "initial_world
              \<lparr> button_debounce_timestamp := 200,
                notification := \<lparr>notification_pending = True, ulNotifiedValue = LED_ON_CMD\<rparr>,
                trace := [XTaskNotifyFromISR LED_ON_CMD] \<rparr>" True 300 300]
  by (simp add: step_def example_config_def initial_world_def log_call_def Let_def
      user_button_interrupt_handler_def DEBOUNCE_TIME_MS_def xTaskNotifyFromISR_def)

section \<open>The connection flag and the client handle\<close>


lemma tracks_client_unchanged [simp]:
  "tracks_client cur (log_call c w) = tracks_client cur w"
  "tracks_client cur (w\<lparr>notification := n\<rparr>) = tracks_client cur w"
  "tracks_client cur (w\<lparr>led_state := l\<rparr>) = tracks_client cur w"
  by (simp_all add: tracks_client_def log_call_def)














section \<open>The command signalled by a press\<close>

lemma receive_error_keeps_led:
  "r \<noteq> CY_RSLT_SUCCESS \<Longrightarrow> tcp_receive_msg_handler cfg h r p st w = Inr (r', w') \<Longrightarrow>
   led_state w' = led_state w"
  by (auto simp: tcp_receive_msg_handler_def disconnect_and_delete_def log_call_def Let_def
      split: if_splits)

lemma receive_out_of_bounds:
  "length p = MAX_TCP_RECV_BUFFER_SIZE cfg \<Longrightarrow>
   tcp_receive_msg_handler cfg h CY_RSLT_SUCCESS p st w \<noteq> Inr x"
  by (simp add: tcp_receive_msg_handler_def Let_def)

lemma loop_keeps_led:
  "server_task_loop_body r w = Inr w' \<Longrightarrow> led_state w' = led_state w"
  by (auto simp: server_task_loop_body_def disconnect_and_delete_def log_call_def Let_def
      split: if_splits option.splits)

lemma step_keeps_led_off:
  assumes "step cfg e w = Inr w'" and "led_state w = CYBSP_LED_STATE_OFF"
    and "\<not> received_led_on_ack e"
  shows "led_state w' = CYBSP_LED_STATE_OFF"
proof (cases e)
  case (Button_irq b t1 t2)
  with assms show ?thesis
    by (auto simp: step_def user_button_interrupt_handler_def log_call_def Let_def)
next
  case (Connect_request r h)
  with assms show ?thesis
    by (auto simp: step_def tcp_connection_handler_def log_call_def Let_def split: if_splits)
next
  case (Receive h r p st)
  show ?thesis
  proof (cases "r = CY_RSLT_SUCCESS")
    case False
    with Receive assms show ?thesis
      by (auto simp: step_def split: if_splits sum.splits dest: receive_error_keeps_led)
  next
    case True
    from Receive assms(1) have len: "length st = MAX_TCP_RECV_BUFFER_SIZE cfg"
        "length p \<le> MAX_TCP_RECV_BUFFER_SIZE cfg"
      by (auto simp: step_def split: if_splits)
    show ?thesis
    proof (cases "length p < MAX_TCP_RECV_BUFFER_SIZE cfg")
      case True
      with Receive assms \<open>r = CY_RSLT_SUCCESS\<close> len show ?thesis
        by (auto simp: step_def receive_success log_call_def)
    next
      case False
      with len have "length p = MAX_TCP_RECV_BUFFER_SIZE cfg" by simp
      with Receive assms(1) \<open>r = CY_RSLT_SUCCESS\<close> len show ?thesis
        by (auto simp: step_def split: sum.splits dest: receive_out_of_bounds)
    qed
  qed
next
  case (Disconnect h r)
  with assms show ?thesis
    by (auto simp: step_def tcp_disconnection_handler_def disconnect_and_delete_def
        log_call_def Let_def)
next
  case (Task_loop r)
  with assms show ?thesis by (auto simp: step_def dest: loop_keeps_led)
qed

lemma run_keeps_led_off:
  "run cfg evs w = Inr w' \<Longrightarrow> led_state w = CYBSP_LED_STATE_OFF \<Longrightarrow>
   \<not> list_ex received_led_on_ack evs \<Longrightarrow> led_state w' = CYBSP_LED_STATE_OFF"
proof (induction evs arbitrary: w)
  case Nil
  then show ?case by simp
next
  case (Cons e evs)
  then show ?case
    by (auto split: sum.splits dest: step_keeps_led_off)
qed

lemma isr_calls_cases:
  "isr_calls cfg b t1 t2 w = []
   \<or> isr_calls cfg b t1 t2 w
       = [XTaskNotifyFromISR
            (if led_state w = CYBSP_LED_STATE_ON then LED_OFF_CMD else LED_ON_CMD)]"
  by (simp add: isr_calls_def user_button_interrupt_handler_def log_call_def Let_def)

text \<open>
  Claim C10 says that the first accepted press after startup always signals \<open>'1'\<close>. The
  receive handler may run before the first press: once a client has connected and sent
  \<^verbatim>\<open>LED ON ACK\<close> unprompted, the first accepted press signals \<open>'0'\<close>.
\<close>

theorem first_press_counterexample:
  "(case run example_config
           [Connect_request CY_RSLT_SUCCESS 7,
            Receive 7 CY_RSLT_SUCCESS ''LED ON ACK'' ''garbage-on-the-stack'',
            Button_irq True 200 200] initial_world of
      Inr w \<Rightarrow> trace w = [Cy_socket_accept 0, Cy_socket_recv 7, XTaskNotifyFromISR LED_OFF_CMD]
    | Inl s \<Rightarrow> False)"
  by (simp add: step_def user_button_interrupt_handler_def example_config_def initial_world_def
      DEBOUNCE_TIME_MS_def log_call_def xTaskNotifyFromISR_def
      tcp_connection_handler_def tcp_receive_msg_handler_def NULL_CHARACTER_def Let_def)

text \<open>
  Claim C10, amended. Every press that is accepted signals the complement of the
  mirrored LED state at that moment: \<^verbatim>\<open>LED_OFF_CMD\<close> when it is ON and \<^verbatim>\<open>LED_ON_CMD\<close>
  otherwise. The mirrored LED state is OFF at reset and stays OFF as long as no
  acknowledgement \<^verbatim>\<open>LED ON ACK\<close> has been received, so an accepted press before any such
  acknowledgement, the first one after startup included, signals \<open>'1'\<close>.
\<close>

theorem press_signals_complement_of_led_state:
  assumes "run cfg evs initial_world = Inr w"
    and "\<not> list_ex received_led_on_ack evs"
  shows "(\<forall>v. isr_calls cfg b t1 t2 v = []
             \<or> isr_calls cfg b t1 t2 v
                 = [XTaskNotifyFromISR
                      (if led_state v = CYBSP_LED_STATE_ON then LED_OFF_CMD else LED_ON_CMD)])
       \<and> led_state initial_world = CYBSP_LED_STATE_OFF
       \<and> led_state w = CYBSP_LED_STATE_OFF
       \<and> (isr_calls cfg b t1 t2 w = []
            \<or> isr_calls cfg b t1 t2 w = [XTaskNotifyFromISR LED_ON_CMD])"
proof -
  have init: "led_state initial_world = CYBSP_LED_STATE_OFF"
    by (simp add: initial_world_def)
  have off: "led_state w = CYBSP_LED_STATE_OFF"
    using assms(1) init assms(2) by (rule run_keeps_led_off)
  from isr_calls_cases [of cfg b t1 t2 w] off
  have "isr_calls cfg b t1 t2 w = [] \<or> isr_calls cfg b t1 t2 w = [XTaskNotifyFromISR LED_ON_CMD]"
    by simp
  with init off isr_calls_cases show ?thesis by blast
qed

theorem press_signals_complement_of_led_state_witness:
  "run example_config
      [Connect_request CY_RSLT_SUCCESS 7,
       Receive 7 CY_RSLT_SUCCESS ''led on ack'' ''garbage-on-the-stack'']
      initial_world
    = Inr (initial_world
             \<lparr> client_handle := 7, client_connected := True, open_clients := [7],
               trace := [Cy_socket_accept 0, Cy_socket_recv 7] \<rparr>)
   \<and> \<not> list_ex received_led_on_ack
         [Connect_request CY_RSLT_SUCCESS 7,
          Receive 7 CY_RSLT_SUCCESS ''led on ack'' ''garbage-on-the-stack'']
   \<and> isr_calls example_config True 200 200
        (initial_world
             \<lparr> client_handle := 7, client_connected := True, open_clients := [7],
               trace := [Cy_socket_accept 0, Cy_socket_recv 7] \<rparr>)
       = [XTaskNotifyFromISR LED_ON_CMD]"
  using press_signals_complement_of_led_state
    [of example_config
        "[Connect_request CY_RSLT_SUCCESS 7,
          Receive 7 CY_RSLT_SUCCESS ''led on ack'' ''garbage-on-the-stack'']"
        "initial_world
             \<lparr> client_handle := 7, client_connected := True, open_clients := [7],
               trace := [Cy_socket_accept 0, Cy_socket_recv 7] \<rparr>" True 200 200]
  by (simp add: step_def example_config_def initial_world_def log_call_def
      tcp_connection_handler_def tcp_receive_msg_handler_def NULL_CHARACTER_def Let_def
      isr_calls_def user_button_interrupt_handler_def DEBOUNCE_TIME_MS_def
      xTaskNotifyFromISR_def)

section \<open>The retries of the network bring-up\<close>

lemma calls_log_connect [simp]:
  "ecm_connect_calls (log_call Cy_ecm_connect w) = Suc (ecm_connect_calls w)"
  by (simp add: ecm_connect_calls_def log_call_def)

lemma calls_log_other [simp]:
  "c \<noteq> Cy_ecm_connect \<Longrightarrow> ecm_connect_calls (log_call c w) = ecm_connect_calls w"
  by (simp add: ecm_connect_calls_def log_call_def)

lemma calls_addr_update [simp]:
  "ecm_connect_calls (w\<lparr>tcp_server_addr := a\<rparr>) = ecm_connect_calls w"
  by (simp add: ecm_connect_calls_def)

lemma addr_log_call [simp]: "tcp_server_addr (log_call c w) = tcp_server_addr w"
  by (simp add: log_call_def)

lemma connect_loop_success:
  assumes "ecm_connect_result env n = CY_RSLT_SUCCESS"
  shows "connect_loop cfg env n rc w =
     (if USE_IPV6_ADDRESS cfg then
        (if ecm_get_ipv6_result env = CY_RSLT_SUCCESS
         then (CY_RSLT_SUCCESS,
               (log_call Cy_ecm_get_ipv6_address (log_call Cy_ecm_connect w))
                 \<lparr>tcp_server_addr :=
                    (tcp_server_addr w)\<lparr>version := CY_SOCKET_IP_VER_V6,
                                         port := TCP_SERVER_PORT cfg\<rparr>\<rparr>)
         else (ecm_get_ipv6_result env,
               log_call Cy_ecm_get_ipv6_address (log_call Cy_ecm_connect w)))
      else (CY_RSLT_SUCCESS,
            (log_call Cy_ecm_connect w)
              \<lparr>tcp_server_addr :=
                 (tcp_server_addr w)\<lparr>ip := (ip (tcp_server_addr w))[0 := ecm_connect_ip_v4 env n],
                                      version := CY_SOCKET_IP_VER_V4,
                                      port := TCP_SERVER_PORT cfg\<rparr>\<rparr>))"
  using assms by (subst connect_loop.simps) (simp add: Let_def log_call_def)

lemma connect_loop_retry:
  assumes "ecm_connect_result env n \<noteq> CY_RSLT_SUCCESS" and "\<not> MAX_ETH_RETRY_COUNT \<le> rc + 1"
  shows "connect_loop cfg env n rc w
           = connect_loop cfg env (Suc n) (rc + 1) (log_call Cy_ecm_connect w)"
  using assms by (subst connect_loop.simps) (simp add: Let_def)

lemma connect_loop_exhausted:
  assumes "ecm_connect_result env n \<noteq> CY_RSLT_SUCCESS" and "MAX_ETH_RETRY_COUNT \<le> rc + 1"
  shows "connect_loop cfg env n rc w = (ecm_connect_result env n, log_call Cy_ecm_connect w)"
  using assms by (subst connect_loop.simps) (simp add: Let_def)

lemma retry_count_bounds:
  "\<not> MAX_ETH_RETRY_COUNT \<le> 0 + 1" "\<not> MAX_ETH_RETRY_COUNT \<le> 0 + 1 + 1"
  "MAX_ETH_RETRY_COUNT \<le> 0 + 1 + 1 + 1"
  by (simp_all add: MAX_ETH_RETRY_COUNT_def word_le_nat_alt)

lemma connect_loop_three_failures:
  assumes "ecm_connect_result env 0 \<noteq> CY_RSLT_SUCCESS"
    and "ecm_connect_result env 1 \<noteq> CY_RSLT_SUCCESS"
    and "ecm_connect_result env 2 \<noteq> CY_RSLT_SUCCESS"
  shows "connect_loop cfg env 0 0 w
           = (ecm_connect_result env 2,
              log_call Cy_ecm_connect (log_call Cy_ecm_connect (log_call Cy_ecm_connect w)))"
proof -
  have "connect_loop cfg env 0 0 w = connect_loop cfg env (Suc 0) (0 + 1) (log_call Cy_ecm_connect w)"
    using assms(1) retry_count_bounds(1) by (rule connect_loop_retry)
  also have "\<dots> = connect_loop cfg env (Suc (Suc 0)) (0 + 1 + 1)
                    (log_call Cy_ecm_connect (log_call Cy_ecm_connect w))"
    using assms(2) retry_count_bounds(2) by (intro connect_loop_retry) simp_all
  also have "\<dots> = (ecm_connect_result env (Suc (Suc 0)),
                    log_call Cy_ecm_connect (log_call Cy_ecm_connect (log_call Cy_ecm_connect w)))"
    using assms(3) retry_count_bounds(3) by (intro connect_loop_exhausted) (simp_all add: numeral_2_eq_2)
  finally show ?thesis by (simp add: numeral_2_eq_2)
qed

lemma connect_loop_second:
  assumes "ecm_connect_result env 0 \<noteq> CY_RSLT_SUCCESS"
  shows "connect_loop cfg env 0 0 w = connect_loop cfg env 1 1 (log_call Cy_ecm_connect w)"
  using connect_loop_retry [OF assms retry_count_bounds(1), of cfg w] by simp

lemma connect_loop_third:
  assumes "ecm_connect_result env 0 \<noteq> CY_RSLT_SUCCESS"
    and "ecm_connect_result env 1 \<noteq> CY_RSLT_SUCCESS"
  shows "connect_loop cfg env 0 0 w
           = connect_loop cfg env 2 2 (log_call Cy_ecm_connect (log_call Cy_ecm_connect w))"
proof -
  have "\<not> MAX_ETH_RETRY_COUNT \<le> 1 + 1"
    by (simp add: MAX_ETH_RETRY_COUNT_def word_le_nat_alt)
  with assms(2) have "connect_loop cfg env 1 1 (log_call Cy_ecm_connect w)
      = connect_loop cfg env (Suc 1) (1 + 1) (log_call Cy_ecm_connect (log_call Cy_ecm_connect w))"
    by (rule connect_loop_retry)
  with connect_loop_second [OF assms(1)] show ?thesis
    by (simp add: numeral_2_eq_2)
qed

lemma all_less_three: "(\<forall>k<3. P k) \<longleftrightarrow> P (0::nat) \<and> P 1 \<and> P 2"
proof
  assume "\<forall>k<3. P k"
  then show "P 0 \<and> P 1 \<and> P 2" by simp
next
  assume h: "P 0 \<and> P 1 \<and> P 2"
  show "\<forall>k<3. P k"
  proof (intro allI impI)
    fix k :: nat
    assume "k < 3"
    then have "k = 0 \<or> k = 1 \<or> k = 2" by arith
    with h show "P k" by auto
  qed
qed

lemma all_less_two: "(\<forall>n<2. P n) \<longleftrightarrow> P (0::nat) \<and> P 1"
proof -
  have "n < 2 \<longleftrightarrow> n = 0 \<or> n = 1" for n :: nat by arith
  then show ?thesis by auto
qed

lemma connect_to_ethernet_loop:
  assumes "ecm_init_result env = CY_RSLT_SUCCESS"
    and "ecm_ethif_init_result env = CY_RSLT_SUCCESS"
  shows "connect_to_ethernet cfg env w
           = Inr (connect_loop cfg env 0 0 (log_call Cy_ecm_ethif_init (log_call Cy_ecm_init w)))"
  using assms by (simp add: connect_to_ethernet_def Let_def)

lemma startup_retries_exhausted:
  assumes "sysint_init_ok tenv"
    and "ecm_init_result (ecm tenv) = CY_RSLT_SUCCESS"
    and "ecm_ethif_init_result (ecm tenv) = CY_RSLT_SUCCESS"
    and "ecm_connect_result (ecm tenv) 0 \<noteq> CY_RSLT_SUCCESS"
    and "ecm_connect_result (ecm tenv) 1 \<noteq> CY_RSLT_SUCCESS"
    and "ecm_connect_result (ecm tenv) 2 \<noteq> CY_RSLT_SUCCESS"
  shows "tcp_secure_server_task_startup cfg tenv w
           = Inl (Halted (w\<lparr>trace := trace w @
                   [Cy_SysInt_Init, Cy_ecm_init, Cy_ecm_ethif_init,
                    Cy_ecm_connect, Cy_ecm_connect, Cy_ecm_connect, Handle_app_error]\<rparr>))"
  using assms
  by (simp add: tcp_secure_server_task_startup_def connect_to_ethernet_loop
      connect_loop_three_failures handle_app_error_def log_call_def Let_def)

text \<open>
  Claim C5 says that a successful connection attempt always records the assigned
  address and port. In the IPv6 build the address is asked for separately after the
  link is up, and the result of that query is guarded: when it fails, the address and
  the port are left as they were and the failure is returned, although the connection
  attempt succeeded.
\<close>

theorem successful_attempt_records_address_counterexample:
  "(case connect_to_ethernet (example_config\<lparr>USE_IPV6_ADDRESS := True\<rparr>)
           (third_attempt_env\<lparr>ecm_connect_result := (\<lambda>n. CY_RSLT_SUCCESS),
                              ecm_get_ipv6_result := CY_RSLT_OTHER 1\<rparr>)
           initial_world of
      Inr (r, w) \<Rightarrow>
        r = CY_RSLT_OTHER 1
        \<and> tcp_server_addr w = tcp_server_addr initial_world
        \<and> trace w = [Cy_ecm_init, Cy_ecm_ethif_init, Cy_ecm_connect, Cy_ecm_get_ipv6_address]
    | Inl s \<Rightarrow> False)"
  by (simp add: connect_to_ethernet_loop connect_loop_success third_attempt_env_def
      example_config_def log_call_def initial_world_def)

text \<open>
  Claim C5, amended. \<^verbatim>\<open>connect_to_ethernet\<close> stops in \<^verbatim>\<open>handle_app_error\<close> before any
  connection attempt when one of its two initialisations fails, and otherwise
  returns after at most 3 calls of \<^verbatim>\<open>cy_ecm_connect\<close>. If the first three attempts all
  fail it returns the failure of the third with \<^verbatim>\<open>tcp_server_addr\<close> untouched, and the
  task then stops in \<^verbatim>\<open>handle_app_error\<close> without any call of the socket setup. If
  attempt \<open>k\<close> is the first to succeed it makes no further attempt; in the IPv4 build
  it records the assigned address, version 4 and the port and returns success; in the
  IPv6 build it records version 6 and the port and returns success when the query of
  the link-local address succeeds, and otherwise returns the failure of that query with
  \<^verbatim>\<open>tcp_server_addr\<close> untouched.
\<close>

theorem connect_to_ethernet_bounded_retries:
  "(case connect_to_ethernet cfg env w of
            Inl s \<Rightarrow>
              (ecm_init_result env \<noteq> CY_RSLT_SUCCESS
                 \<and> s = handle_app_error (log_call Cy_ecm_init w))
            \<or> (ecm_init_result env = CY_RSLT_SUCCESS
                 \<and> ecm_ethif_init_result env \<noteq> CY_RSLT_SUCCESS
                 \<and> s = handle_app_error
                         (log_call Cy_ecm_ethif_init (log_call Cy_ecm_init w)))
          | Inr (r, w') \<Rightarrow>
              ecm_init_result env = CY_RSLT_SUCCESS
            \<and> ecm_ethif_init_result env = CY_RSLT_SUCCESS
            \<and> ecm_connect_calls w' \<le> ecm_connect_calls w + 3
            \<and> ((\<forall>n<3. ecm_connect_result env n \<noteq> CY_RSLT_SUCCESS) \<longrightarrow>
                  r = ecm_connect_result env 2
                \<and> ecm_connect_calls w' = ecm_connect_calls w + 3
                \<and> tcp_server_addr w' = tcp_server_addr w)
            \<and> (\<forall>k<3. (\<forall>n<k. ecm_connect_result env n \<noteq> CY_RSLT_SUCCESS)
                      \<and> ecm_connect_result env k = CY_RSLT_SUCCESS \<longrightarrow>
                  ecm_connect_calls w' = ecm_connect_calls w + k + 1
                \<and> (\<not> USE_IPV6_ADDRESS cfg \<longrightarrow>
                      r = CY_RSLT_SUCCESS
                    \<and> tcp_server_addr w'
                        = (tcp_server_addr w)
                            \<lparr>ip := (ip (tcp_server_addr w))[0 := ecm_connect_ip_v4 env k],
                             version := CY_SOCKET_IP_VER_V4,
                             port := TCP_SERVER_PORT cfg\<rparr>)
                \<and> (USE_IPV6_ADDRESS cfg \<and> ecm_get_ipv6_result env = CY_RSLT_SUCCESS \<longrightarrow>
                      r = CY_RSLT_SUCCESS
                    \<and> version (tcp_server_addr w') = CY_SOCKET_IP_VER_V6
                    \<and> port (tcp_server_addr w') = TCP_SERVER_PORT cfg)
                \<and> (USE_IPV6_ADDRESS cfg \<and> ecm_get_ipv6_result env \<noteq> CY_RSLT_SUCCESS \<longrightarrow>
                      r = ecm_get_ipv6_result env
                    \<and> tcp_server_addr w' = tcp_server_addr w)))
       \<and> (ecm_init_result env = CY_RSLT_SUCCESS
            \<and> ecm_ethif_init_result env = CY_RSLT_SUCCESS
            \<and> (\<forall>n<3. ecm_connect_result env n \<noteq> CY_RSLT_SUCCESS)
            \<and> sysint_init_ok tenv \<and> ecm tenv = env \<longrightarrow>
          tcp_secure_server_task_startup cfg tenv w
            = Inl (Halted (w\<lparr>trace := trace w @
                    [Cy_SysInt_Init, Cy_ecm_init, Cy_ecm_ethif_init,
                     Cy_ecm_connect, Cy_ecm_connect, Cy_ecm_connect, Handle_app_error]\<rparr>)))"
proof -
  let ?w2 = "log_call Cy_ecm_ethif_init (log_call Cy_ecm_init w)"
  have eq: "connect_to_ethernet cfg env w = Inr (connect_loop cfg env 0 0 ?w2)"
    if "ecm_init_result env = CY_RSLT_SUCCESS" "ecm_ethif_init_result env = CY_RSLT_SUCCESS"
    using that by (rule connect_to_ethernet_loop)
  have halt: "connect_to_ethernet cfg env w
      = Inl (if ecm_init_result env \<noteq> CY_RSLT_SUCCESS
             then handle_app_error (log_call Cy_ecm_init w)
             else handle_app_error ?w2)"
    if "\<not> (ecm_init_result env = CY_RSLT_SUCCESS
            \<and> ecm_ethif_init_result env = CY_RSLT_SUCCESS)"
    using that by (auto simp: connect_to_ethernet_def Let_def)
  have calls: "ecm_connect_calls ?w2 = ecm_connect_calls w"
    and addr: "tcp_server_addr ?w2 = tcp_server_addr w"
    by simp_all
  have startup: "ecm_init_result env = CY_RSLT_SUCCESS
            \<and> ecm_ethif_init_result env = CY_RSLT_SUCCESS
            \<and> (\<forall>n<3. ecm_connect_result env n \<noteq> CY_RSLT_SUCCESS)
            \<and> sysint_init_ok tenv \<and> ecm tenv = env \<longrightarrow>
          tcp_secure_server_task_startup cfg tenv w
            = Inl (Halted (w\<lparr>trace := trace w @
                    [Cy_SysInt_Init, Cy_ecm_init, Cy_ecm_ethif_init,
                     Cy_ecm_connect, Cy_ecm_connect, Cy_ecm_connect, Handle_app_error]\<rparr>))"
    by (auto simp: all_less_three intro!: startup_retries_exhausted)
  consider
      (first) "ecm_connect_result env 0 = CY_RSLT_SUCCESS"
    | (second) "ecm_connect_result env 0 \<noteq> CY_RSLT_SUCCESS"
               "ecm_connect_result env 1 = CY_RSLT_SUCCESS"
    | (third) "ecm_connect_result env 0 \<noteq> CY_RSLT_SUCCESS"
              "ecm_connect_result env 1 \<noteq> CY_RSLT_SUCCESS"
              "ecm_connect_result env 2 = CY_RSLT_SUCCESS"
    | (none) "ecm_connect_result env 0 \<noteq> CY_RSLT_SUCCESS"
             "ecm_connect_result env 1 \<noteq> CY_RSLT_SUCCESS"
             "ecm_connect_result env 2 \<noteq> CY_RSLT_SUCCESS"
    by blast
  then have loop: "case connect_loop cfg env 0 0 ?w2 of (r, w') \<Rightarrow>
              ecm_connect_calls w' \<le> ecm_connect_calls w + 3
            \<and> ((\<forall>n<3. ecm_connect_result env n \<noteq> CY_RSLT_SUCCESS) \<longrightarrow>
                  r = ecm_connect_result env 2
                \<and> ecm_connect_calls w' = ecm_connect_calls w + 3
                \<and> tcp_server_addr w' = tcp_server_addr w)
            \<and> (\<forall>k<3. (\<forall>n<k. ecm_connect_result env n \<noteq> CY_RSLT_SUCCESS)
                      \<and> ecm_connect_result env k = CY_RSLT_SUCCESS \<longrightarrow>
                  ecm_connect_calls w' = ecm_connect_calls w + k + 1
                \<and> (\<not> USE_IPV6_ADDRESS cfg \<longrightarrow>
                      r = CY_RSLT_SUCCESS
                    \<and> tcp_server_addr w'
                        = (tcp_server_addr w)
                            \<lparr>ip := (ip (tcp_server_addr w))[0 := ecm_connect_ip_v4 env k],
                             version := CY_SOCKET_IP_VER_V4,
                             port := TCP_SERVER_PORT cfg\<rparr>)
                \<and> (USE_IPV6_ADDRESS cfg \<and> ecm_get_ipv6_result env = CY_RSLT_SUCCESS \<longrightarrow>
                      r = CY_RSLT_SUCCESS
                    \<and> version (tcp_server_addr w') = CY_SOCKET_IP_VER_V6
                    \<and> port (tcp_server_addr w') = TCP_SERVER_PORT cfg)
                \<and> (USE_IPV6_ADDRESS cfg \<and> ecm_get_ipv6_result env \<noteq> CY_RSLT_SUCCESS \<longrightarrow>
                      r = ecm_get_ipv6_result env
                    \<and> tcp_server_addr w' = tcp_server_addr w))"
  proof cases
    case first
    then show ?thesis
      by (auto simp: connect_loop_success all_less_three all_less_two calls addr)
  next
    case second
    then show ?thesis
      by (auto simp: connect_loop_second connect_loop_success all_less_three all_less_two
          calls addr)
  next
    case third
    then show ?thesis
      by (auto simp: connect_loop_third connect_loop_success all_less_three all_less_two
          calls addr)
  next
    case none
    then show ?thesis
      by (auto simp: connect_loop_three_failures all_less_three all_less_two calls addr)
  qed
  show ?thesis
  proof (cases "ecm_init_result env = CY_RSLT_SUCCESS
                  \<and> ecm_ethif_init_result env = CY_RSLT_SUCCESS")
    case True
    with eq loop startup show ?thesis
      by (simp only: sum.case) simp
  next
    case False
    with halt startup show ?thesis
      by (simp only: sum.case) auto
  qed
qed

theorem connect_to_ethernet_bounded_retries_witness:
  "ecm_init_result third_attempt_env = CY_RSLT_SUCCESS
   \<and> ecm_ethif_init_result third_attempt_env = CY_RSLT_SUCCESS
   \<and> connect_to_ethernet example_config third_attempt_env initial_world
       = Inr (CY_RSLT_SUCCESS,
              initial_world
                \<lparr> tcp_server_addr :=
                    \<lparr> port = 50007, version = CY_SOCKET_IP_VER_V4,
                      ip = [0xC0A80105, 0, 0, 0] \<rparr>,
                  trace := [Cy_ecm_init, Cy_ecm_ethif_init,
                            Cy_ecm_connect, Cy_ecm_connect, Cy_ecm_connect] \<rparr>)
   \<and> tcp_secure_server_task_startup example_config no_link_task_env initial_world
       = Inl (Halted (initial_world
                \<lparr> trace := [Cy_SysInt_Init, Cy_ecm_init, Cy_ecm_ethif_init,
                            Cy_ecm_connect, Cy_ecm_connect, Cy_ecm_connect,
                            Handle_app_error] \<rparr>))"
  using connect_to_ethernet_bounded_retries
          [where env = third_attempt_env and cfg = example_config and w = initial_world
             and tenv = no_link_task_env]
        connect_to_ethernet_bounded_retries
          [where env = no_link_env and cfg = example_config and w = initial_world
             and tenv = no_link_task_env]
  by (simp add: connect_to_ethernet_loop connect_loop_third connect_loop_success
      third_attempt_env_def no_link_env_def no_link_task_env_def example_config_def
      log_call_def initial_world_def all_less_three)

end
